theory Spec2Isabelle
  imports Complex_Main
begin

section \<open>Temple Finder: the proximity search of \<open>GET /api/temples\<close>\<close>

text \<open>
  The development embeds the handler of \<open>app.get("/api/temples")\<close> and its helper
  \<open>getDistance\<close> (the server file), together with the \<open>temples\<close> table of
  \<open>src/db.ts\<close>.

  Numbers. A JavaScript number is modelled by \<open>jsnum\<close>: \<open>NaN\<close>, the two
  infinities, or a finite value carried as a \<open>real\<close>. The arithmetic below is the
  arithmetic of ECMAScript on these four kinds of value (what propagates \<open>NaN\<close>, what
  an infinity does, where \<open>Math.sqrt\<close> leaves the reals), computed exactly on the
  finite values: rounding to the nearest double, overflow of a finite result, and the
  sign of zero are not represented (\<open>Num 0\<close> stands for \<open>+0\<close>).
\<close>

subsection \<open>JavaScript numbers\<close>

datatype jsnum = NaN | PInf | NInf | Num real

fun js_neg :: "jsnum \<Rightarrow> jsnum" where
  "js_neg NaN = NaN"
| "js_neg PInf = NInf"
| "js_neg NInf = PInf"
| "js_neg (Num x) = Num (- x)"

text \<open>\<open>x + y\<close>.\<close>

fun js_add :: "jsnum \<Rightarrow> jsnum \<Rightarrow> jsnum" where
  "js_add NaN _ = NaN"
| "js_add _ NaN = NaN"
| "js_add PInf NInf = NaN"
| "js_add NInf PInf = NaN"
| "js_add PInf _ = PInf"
| "js_add _ PInf = PInf"
| "js_add NInf _ = NInf"
| "js_add _ NInf = NInf"
| "js_add (Num x) (Num y) = Num (x + y)"

text \<open>\<open>x - y\<close>.\<close>

fun js_sub :: "jsnum \<Rightarrow> jsnum \<Rightarrow> jsnum" where
  "js_sub NaN _ = NaN"
| "js_sub _ NaN = NaN"
| "js_sub PInf PInf = NaN"
| "js_sub NInf NInf = NaN"
| "js_sub PInf _ = PInf"
| "js_sub _ NInf = PInf"
| "js_sub NInf _ = NInf"
| "js_sub _ PInf = NInf"
| "js_sub (Num x) (Num y) = Num (x - y)"

text \<open>The sign of an infinity multiplied or divided by a finite value; an infinity
  times zero is \<open>NaN\<close>.\<close>

definition inf_times :: "bool \<Rightarrow> real \<Rightarrow> jsnum" where
  "inf_times positive x =
     (if x = 0 then NaN else if (0 < x) = positive then PInf else NInf)"

text \<open>\<open>x * y\<close>.\<close>

fun js_mul :: "jsnum \<Rightarrow> jsnum \<Rightarrow> jsnum" where
  "js_mul NaN _ = NaN"
| "js_mul _ NaN = NaN"
| "js_mul PInf PInf = PInf"
| "js_mul PInf NInf = NInf"
| "js_mul NInf PInf = NInf"
| "js_mul NInf NInf = PInf"
| "js_mul PInf (Num y) = inf_times True y"
| "js_mul NInf (Num y) = inf_times False y"
| "js_mul (Num x) PInf = inf_times True x"
| "js_mul (Num x) NInf = inf_times False x"
| "js_mul (Num x) (Num y) = Num (x * y)"

text \<open>\<open>x / y\<close>. A finite value divided by zero is an infinity of the sign of the
  dividend (the divisor read as \<open>+0\<close>), and \<open>0 / 0\<close> is \<open>NaN\<close>; the handler
  divides by the literals \<open>180\<close> and \<open>2\<close> only.\<close>

fun js_div :: "jsnum \<Rightarrow> jsnum \<Rightarrow> jsnum" where
  "js_div NaN _ = NaN"
| "js_div _ NaN = NaN"
| "js_div PInf PInf = NaN"
| "js_div PInf NInf = NaN"
| "js_div NInf PInf = NaN"
| "js_div NInf NInf = NaN"
| "js_div PInf (Num y) = (if 0 \<le> y then PInf else NInf)"
| "js_div NInf (Num y) = (if 0 \<le> y then NInf else PInf)"
| "js_div (Num x) PInf = Num 0"
| "js_div (Num x) NInf = Num 0"
| "js_div (Num x) (Num y) =
     (if y = 0 then (if x = 0 then NaN else if 0 < x then PInf else NInf)
      else Num (x / y))"

text \<open>\<open>x <= y\<close>: false as soon as one side is \<open>NaN\<close>.\<close>

fun js_le :: "jsnum \<Rightarrow> jsnum \<Rightarrow> bool" where
  "js_le NaN _ = False"
| "js_le _ NaN = False"
| "js_le NInf _ = True"
| "js_le _ PInf = True"
| "js_le PInf _ = False"
| "js_le _ NInf = False"
| "js_le (Num x) (Num y) = (x \<le> y)"

text \<open>\<open>x === y\<close> on numbers: \<open>NaN\<close> is not equal to itself.\<close>

fun js_eq :: "jsnum \<Rightarrow> jsnum \<Rightarrow> bool" where
  "js_eq NaN _ = False"
| "js_eq _ NaN = False"
| "js_eq x y = (x = y)"

subsection \<open>The \<open>Math\<close> object\<close>

definition Math_PI :: jsnum where
  "Math_PI = Num pi"

fun Math_sin :: "jsnum \<Rightarrow> jsnum" where
  "Math_sin (Num x) = Num (sin x)"
| "Math_sin _ = NaN"

fun Math_cos :: "jsnum \<Rightarrow> jsnum" where
  "Math_cos (Num x) = Num (cos x)"
| "Math_cos _ = NaN"

fun Math_sqrt :: "jsnum \<Rightarrow> jsnum" where
  "Math_sqrt (Num x) = (if x < 0 then NaN else Num (sqrt x))"
| "Math_sqrt PInf = PInf"
| "Math_sqrt _ = NaN"

text \<open>The angle of the point \<open>(x, y)\<close> for finite arguments, in \<open>(-\<pi>, \<pi>]\<close>.\<close>

definition atan2 :: "real \<Rightarrow> real \<Rightarrow> real" where
  "atan2 y x =
     (if 0 < x then arctan (y / x)
      else if x < 0 then (if 0 \<le> y then arctan (y / x) + pi else arctan (y / x) - pi)
      else if 0 < y then pi / 2
      else if y < 0 then - (pi / 2)
      else 0)"

text \<open>\<open>Math.atan2(y, x)\<close>, with the results ECMAScript fixes for infinite arguments.\<close>

fun Math_atan2 :: "jsnum \<Rightarrow> jsnum \<Rightarrow> jsnum" where
  "Math_atan2 NaN _ = NaN"
| "Math_atan2 _ NaN = NaN"
| "Math_atan2 PInf PInf = Num (pi / 4)"
| "Math_atan2 PInf NInf = Num (3 * pi / 4)"
| "Math_atan2 NInf PInf = Num (- (pi / 4))"
| "Math_atan2 NInf NInf = Num (- (3 * pi / 4))"
| "Math_atan2 PInf (Num x) = Num (pi / 2)"
| "Math_atan2 NInf (Num x) = Num (- (pi / 2))"
| "Math_atan2 (Num y) PInf = Num 0"
| "Math_atan2 (Num y) NInf = (if 0 \<le> y then Num pi else Num (- pi))"
| "Math_atan2 (Num y) (Num x) = Num (atan2 y x)"

subsection \<open>\<open>getDistance\<close>\<close>

text \<open>
  \<^verbatim>\<open>
  function getDistance(lat1, lon1, lat2, lon2) {
    const R = 6371; // km
    const dLat = (lat2 - lat1) * Math.PI / 180;
    const dLon = (lon2 - lon1) * Math.PI / 180;
    const a = Math.sin(dLat / 2) * Math.sin(dLat / 2) +
      Math.cos(lat1 * Math.PI / 180) * Math.cos(lat2 * Math.PI / 180) *
      Math.sin(dLon / 2) * Math.sin(dLon / 2);
    const c = 2 * Math.atan2(Math.sqrt(a), Math.sqrt(1 - a));
    return R * c;
  }
  \<close>
  \<open>*\<close> and \<open>/\<close> associate to the left.
\<close>

definition getDistance :: "jsnum \<Rightarrow> jsnum \<Rightarrow> jsnum \<Rightarrow> jsnum \<Rightarrow> jsnum" where
  "getDistance lat1 lon1 lat2 lon2 =
     (let R = Num 6371;
          dLat = js_div (js_mul (js_sub lat2 lat1) Math_PI) (Num 180);
          dLon = js_div (js_mul (js_sub lon2 lon1) Math_PI) (Num 180);
          a = js_add
                (js_mul (Math_sin (js_div dLat (Num 2))) (Math_sin (js_div dLat (Num 2))))
                (js_mul
                  (js_mul
                    (js_mul (Math_cos (js_div (js_mul lat1 Math_PI) (Num 180)))
                            (Math_cos (js_div (js_mul lat2 Math_PI) (Num 180))))
                    (Math_sin (js_div dLon (Num 2))))
                  (Math_sin (js_div dLon (Num 2))));
          c = js_mul (Num 2) (Math_atan2 (Math_sqrt a) (Math_sqrt (js_sub (Num 1) a)))
      in js_mul R c)"

subsection \<open>\<open>parseFloat\<close>\<close>

text \<open>
  Strings are lists of 8-bit characters; the model reads them as ASCII.
  \<open>parseFloat\<close> skips leading white space and reads the longest prefix that is a
  \<open>StrDecimalLiteral\<close> of ECMAScript: an optional sign, then \<open>Infinity\<close>, or digits
  with an optional fraction and an optional exponent. With no such prefix the result is
  \<open>NaN\<close>. The value of the literal is taken exactly.
\<close>

definition is_white :: "char \<Rightarrow> bool" where
  "is_white c = (c \<in> set [CHR 0x09, CHR 0x0A, CHR 0x0B, CHR 0x0C, CHR 0x0D, CHR '' ''])"

definition digit_of :: "char \<Rightarrow> nat option" where
  "digit_of = map_of
     [(CHR ''0'', 0), (CHR ''1'', 1), (CHR ''2'', 2), (CHR ''3'', 3), (CHR ''4'', 4),
      (CHR ''5'', 5), (CHR ''6'', 6), (CHR ''7'', 7), (CHR ''8'', 8), (CHR ''9'', 9)]"

definition is_digit :: "char \<Rightarrow> bool" where
  "is_digit c = (digit_of c \<noteq> None)"

text \<open>The value of a string of decimal digits, most significant first.\<close>

definition digits_value :: "string \<Rightarrow> nat" where
  "digits_value ds = foldl (\<lambda>n c. 10 * n + (case digit_of c of Some d \<Rightarrow> d | None \<Rightarrow> 0)) 0 ds"

text \<open>The \<open>ExponentPart\<close>, when one stands complete at the head of the rest: \<open>e\<close> or
  \<open>E\<close>, an optional sign, one digit at least. Anything else leaves the exponent 0.\<close>

definition exponent_part :: "string \<Rightarrow> int" where
  "exponent_part s =
     (case s of
        [] \<Rightarrow> 0
      | e # s1 \<Rightarrow>
          if e = CHR ''e'' \<or> e = CHR ''E'' then
            (case s1 of
               [] \<Rightarrow> 0
             | g # s2 \<Rightarrow>
                 if g = CHR ''-'' then - int (digits_value (takeWhile is_digit s2))
                 else if g = CHR ''+'' then int (digits_value (takeWhile is_digit s2))
                 else int (digits_value (takeWhile is_digit s1)))
          else 0)"

definition scale10 :: "real \<Rightarrow> int \<Rightarrow> real" where
  "scale10 m e = (if 0 \<le> e then m * 10 ^ nat e else m / 10 ^ nat (- e))"

text \<open>\<open>StrUnsignedDecimalLiteral\<close>: \<open>None\<close> when no prefix of the string is one.\<close>

definition unsigned_literal :: "string \<Rightarrow> jsnum option" where
  "unsigned_literal s =
     (if take 8 s = ''Infinity'' then Some PInf
      else
        let ip = takeWhile is_digit s; s1 = dropWhile is_digit s in
        (case s1 of
           [] \<Rightarrow> if ip = [] then None else Some (Num (real (digits_value ip)))
         | d # s2 \<Rightarrow>
             if d = CHR ''.'' then
               (let fp = takeWhile is_digit s2; s3 = dropWhile is_digit s2 in
                if ip = [] \<and> fp = [] then None
                else Some (Num (scale10
                       (real (digits_value (ip @ fp)) / 10 ^ length fp) (exponent_part s3))))
             else if ip = [] then None
             else Some (Num (scale10 (real (digits_value ip)) (exponent_part s1)))))"

definition parseFloat :: "string \<Rightarrow> jsnum" where
  "parseFloat s =
     (case dropWhile is_white s of
        [] \<Rightarrow> NaN
      | c # cs \<Rightarrow>
          if c = CHR ''-'' then
            (case unsigned_literal cs of None \<Rightarrow> NaN | Some v \<Rightarrow> js_neg v)
          else if c = CHR ''+'' then
            (case unsigned_literal cs of None \<Rightarrow> NaN | Some v \<Rightarrow> v)
          else
            (case unsigned_literal (c # cs) of None \<Rightarrow> NaN | Some v \<Rightarrow> v))"

subsection \<open>The \<open>temples\<close> table and its rows\<close>

text \<open>
  A row of the table \<open>temples\<close> of \<open>src/db.ts\<close>, one field per column. \<open>name\<close>
  and \<open>type\<close> are \<open>NOT NULL\<close>; every other column may hold \<open>NULL\<close> (\<open>None\<close>),
  which the driver hands to JavaScript as \<open>null\<close>. The \<open>REAL\<close> columns \<open>lat\<close>
  and \<open>lng\<close> hold a number or \<open>NULL\<close>.
\<close>

record row =
  t_id :: int
  t_name :: string
  t_type :: string
  t_address :: "string option"
  t_city :: "string option"
  t_lat :: "jsnum option"
  t_lng :: "jsnum option"
  t_opening_hours :: "string option"
  t_ritual_timings :: "string option"
  t_festivals :: "string option"
  t_accessibility :: "string option"
  t_contact :: "string option"
  t_description :: "string option"
  t_image_url :: "string option"

text \<open>The object the driver builds from a row, to which the handler adds the property
  \<open>distance\<close>; \<open>None\<close> is a property that was never set (\<open>undefined\<close>).\<close>

record temple = row +
  t_distance :: "jsnum option"

definition object_of_row :: "row \<Rightarrow> temple" where
  "object_of_row r = row.extend r (temple.fields None)"

record database =
  temples :: "row list"

subsection \<open>The SQL the handler issues\<close>

text \<open>
  The handler builds \<open>SELECT * FROM temples WHERE 1=1\<close> followed by at most two
  conjuncts: \<open>AND city LIKE ?\<close> and \<open>AND type IN (?, ..., ?)\<close>.
\<close>

datatype condition = City_like string | Type_in "string list"

definition ascii_lower :: "char \<Rightarrow> char" where
  "ascii_lower c =
     (case map_of (zip ''ABCDEFGHIJKLMNOPQRSTUVWXYZ'' ''abcdefghijklmnopqrstuvwxyz'') c of
        Some l \<Rightarrow> l
      | None \<Rightarrow> c)"

text \<open>SQLite's \<open>text LIKE pattern\<close>: \<open>%\<close> matches any run of characters, \<open>_\<close> any
  one character, and letters match without regard to case.\<close>

fun like :: "string \<Rightarrow> string \<Rightarrow> bool" where
  "like [] s = (s = [])"
| "like (p # ps) [] = (p = CHR ''%'' \<and> like ps [])"
| "like (p # ps) (c # cs) =
     (if p = CHR ''%'' then like ps (c # cs) \<or> like (p # ps) cs
      else (p = CHR ''_'' \<or> ascii_lower p = ascii_lower c) \<and> like ps cs)"

text \<open>A \<open>NULL\<close> city makes \<open>city LIKE ?\<close> \<open>NULL\<close>, and the row is not selected.\<close>

fun holds :: "condition \<Rightarrow> row \<Rightarrow> bool" where
  "holds (City_like p) r = (case t_city r of None \<Rightarrow> False | Some c \<Rightarrow> like p c)"
| "holds (Type_in ts) r = List.member ts (t_type r)"

text \<open>\<open>db.prepare(query).all(...params)\<close>: the selected rows in table order, each as
  a fresh object, so that an assignment to a property of a result does not reach the
  table. A \<open>SELECT\<close> leaves the database as it was.\<close>

definition db_all :: "database \<Rightarrow> condition list \<Rightarrow> temple list \<times> database" where
  "db_all db conds =
     (map object_of_row (filter (\<lambda>r. list_all (\<lambda>c. holds c r) conds) (temples db)), db)"

subsection \<open>The request and the response\<close>

text \<open>\<open>req.query\<close>: each of the five parameters the handler reads is absent
  (\<open>undefined\<close>) or a string, the type the handler casts it to. A parameter given
  several times or with brackets, which the query parser turns into an array or an
  object, is not represented.\<close>

record query =
  q_city :: "string option"
  q_type :: "string option"
  q_lat :: "string option"
  q_lng :: "string option"
  q_radius :: "string option"

text \<open>What \<open>if (v)\<close> tests: \<open>undefined\<close> and the empty string are falsy.\<close>

fun truthy :: "string option \<Rightarrow> bool" where
  "truthy None = False"
| "truthy (Some s) = (s \<noteq> [])"

text \<open>\<open>ToString\<close>, which \<open>parseFloat\<close> applies to its argument first.\<close>

fun to_string :: "string option \<Rightarrow> string" where
  "to_string None = ''undefined''"
| "to_string (Some s) = s"

record response =
  status :: nat
  body :: "temple list"

text \<open>\<open>res.json(v)\<close> answers with status 200.\<close>

definition res_json :: "temple list \<Rightarrow> response" where
  "res_json ts = \<lparr>status = 200, body = ts\<rparr>"

text \<open>\<open>s.split(",")\<close>.\<close>

fun split_comma :: "string \<Rightarrow> string list" where
  "split_comma [] = [[]]"
| "split_comma (c # cs) =
     (if c = CHR '','' then [] # split_comma cs
      else (case split_comma cs of [] \<Rightarrow> [[c]] | w # ws \<Rightarrow> (c # w) # ws))"

subsection \<open>Coercions\<close>

text \<open>\<open>ToNumber\<close> of a column value: \<open>null\<close> is \<open>+0\<close>. \<open>getDistance\<close> uses its
  arguments in arithmetic only, so the coercion is applied where they are passed.\<close>

fun number_of_column :: "jsnum option \<Rightarrow> jsnum" where
  "number_of_column None = Num 0"
| "number_of_column (Some v) = v"

text \<open>\<open>ToNumber\<close> of a property: \<open>undefined\<close> is \<open>NaN\<close>.\<close>

fun number_of_property :: "jsnum option \<Rightarrow> jsnum" where
  "number_of_property None = NaN"
| "number_of_property (Some v) = v"

subsection \<open>\<open>Array.prototype.filter\<close> and \<open>Array.prototype.sort\<close>\<close>

text \<open>
  The callback of \<open>temples.filter\<close>:
  \<^verbatim>\<open>
  t => { const d = getDistance(userLat, userLng, t.lat, t.lng);
         t.distance = d;
         return d <= r; }
  \<close>
  It returns the object as it is after the assignment, and whether it is kept.
\<close>

definition within_radius :: "jsnum \<Rightarrow> jsnum \<Rightarrow> jsnum \<Rightarrow> temple \<Rightarrow> temple \<times> bool" where
  "within_radius userLat userLng r t =
     (let d = getDistance userLat userLng (number_of_column (t_lat t)) (number_of_column (t_lng t))
      in (t\<lparr>t_distance := Some d\<rparr>, js_le d r))"

primrec array_filter :: "('a \<Rightarrow> 'a \<times> bool) \<Rightarrow> 'a list \<Rightarrow> 'a list" where
  "array_filter f [] = []"
| "array_filter f (x # xs) =
     (case f x of (x', keep) \<Rightarrow> if keep then x' # array_filter f xs else array_filter f xs)"

text \<open>The comparator \<open>(a, b) => a.distance - b.distance\<close>.\<close>

definition by_distance :: "temple \<Rightarrow> temple \<Rightarrow> jsnum" where
  "by_distance a b = js_sub (number_of_property (t_distance a)) (number_of_property (t_distance b))"

text \<open>\<open>SortCompare\<close> reads a \<open>NaN\<close> from the comparator as \<open>+0\<close>; \<open>x\<close> is
  placed after \<open>y\<close> only when the comparator's value is positive.\<close>

fun positive :: "jsnum \<Rightarrow> bool" where
  "positive PInf = True"
| "positive (Num v) = (0 < v)"
| "positive _ = False"

text \<open>
  \<open>sort\<close> is stable (ECMAScript 2019): elements the comparator does not separate keep
  their order. The model is the stable insertion sort: each element is inserted, from
  the right, before the first element it is not to follow.
\<close>

fun insert_sorted :: "('a \<Rightarrow> 'a \<Rightarrow> jsnum) \<Rightarrow> 'a \<Rightarrow> 'a list \<Rightarrow> 'a list" where
  "insert_sorted cmp x [] = [x]"
| "insert_sorted cmp x (y # ys) =
     (if positive (cmp x y) then y # insert_sorted cmp x ys else x # y # ys)"

definition array_sort :: "('a \<Rightarrow> 'a \<Rightarrow> jsnum) \<Rightarrow> 'a list \<Rightarrow> 'a list" where
  "array_sort cmp xs = foldr (insert_sorted cmp) xs []"

subsection \<open>The handler of \<open>GET /api/temples\<close>\<close>

text \<open>
  \<^verbatim>\<open>
  const { city, type, lat, lng, radius = 10 } = req.query;
  let query = "SELECT * FROM temples WHERE 1=1";
  if (city) { query += " AND city LIKE ?"; params.push(`%${city}%`); }
  if (type) { const types = type.split(","); query += ` AND type IN (...)`; ... }
  let temples = db.prepare(query).all(...params);
  if (lat && lng) {
    const userLat = parseFloat(lat); const userLng = parseFloat(lng);
    const r = parseFloat(radius);
    temples = temples.filter(...); temples.sort(...);
  }
  res.json(temples);
  \<close>
  The default of \<open>radius\<close> is the number \<open>10\<close>, which \<open>parseFloat\<close> first turns
  into the string \<open>"10"\<close>.
\<close>

definition where_clause :: "query \<Rightarrow> condition list" where
  "where_clause q =
     (case q_city q of
        Some city \<Rightarrow> if city \<noteq> [] then [City_like (''%'' @ city @ ''%'')] else []
      | None \<Rightarrow> [])
     @
     (case q_type q of
        Some type \<Rightarrow> if type \<noteq> [] then [Type_in (split_comma type)] else []
      | None \<Rightarrow> [])"

definition radius_string :: "query \<Rightarrow> string" where
  "radius_string q = (case q_radius q of None \<Rightarrow> ''10'' | Some s \<Rightarrow> s)"

definition rank :: "query \<Rightarrow> temple list \<Rightarrow> temple list" where
  "rank q ts =
     (if truthy (q_lat q) \<and> truthy (q_lng q) then
        (let userLat = parseFloat (to_string (q_lat q));
             userLng = parseFloat (to_string (q_lng q));
             r = parseFloat (radius_string q)
         in array_sort by_distance (array_filter (within_radius userLat userLng r) ts))
      else ts)"

definition handler :: "database \<Rightarrow> query \<Rightarrow> response \<times> database" where
  "handler db q =
     (case db_all db (where_clause q) of
        (ts, db') \<Rightarrow> (res_json (rank q ts), db'))"

subsection \<open>Reading the response\<close>

text \<open>\<open>a.distance <= b.distance\<close>, as JavaScript evaluates it on two results.\<close>

definition distance_le :: "temple \<Rightarrow> temple \<Rightarrow> bool" where
  "distance_le a b =
     js_le (number_of_property (t_distance a)) (number_of_property (t_distance b))"

text \<open>An entry \<open>sort\<close> can place: its \<open>distance\<close> is a number other than
  \<open>NaN\<close>.\<close>

definition comparable :: "temple \<Rightarrow> bool" where
  "comparable t = (number_of_property (t_distance t) \<noteq> NaN)"

subsection \<open>The haversine formula, as the specification words it\<close>

text \<open>A coordinate in degrees is valid when its latitude lies in \<open>[-90, 90]\<close> and its
  longitude in \<open>[-180, 180]\<close>.\<close>

definition valid_coordinate :: "real \<Rightarrow> real \<Rightarrow> bool" where
  "valid_coordinate lat lon = (- 90 \<le> lat \<and> lat \<le> 90 \<and> - 180 \<le> lon \<and> lon \<le> 180)"

definition radians :: "real \<Rightarrow> real" where
  "radians deg = deg * pi / 180"

text \<open>\<open>a = sin\<^sup>2(\<Delta>lat/2) + cos(lat1) \<cdot> cos(lat2) \<cdot> sin\<^sup>2(\<Delta>lon/2)\<close>, the differences and
  the latitudes converted to radians.\<close>

definition haversine_a :: "real \<Rightarrow> real \<Rightarrow> real \<Rightarrow> real \<Rightarrow> real" where
  "haversine_a lat1 lon1 lat2 lon2 =
     (sin (radians (lat2 - lat1) / 2))\<^sup>2
     + cos (radians lat1) * cos (radians lat2) * (sin (radians (lon2 - lon1) / 2))\<^sup>2"

text \<open>\<open>c = 2 \<cdot> atan2(\<surd>a, \<surd>(1 - a))\<close> and \<open>distance = R \<cdot> c\<close> with \<open>R = 6371\<close>
  kilometres.\<close>

definition haversine :: "real \<Rightarrow> real \<Rightarrow> real \<Rightarrow> real \<Rightarrow> real" where
  "haversine lat1 lon1 lat2 lon2 =
     (let a = haversine_a lat1 lon1 lat2 lon2;
          c = 2 * atan2 (sqrt a) (sqrt (1 - a))
      in 6371 * c)"

subsection \<open>Sample data\<close>

text \<open>The first row \<open>src/db.ts\<close> seeds the table with.\<close>

definition dagadusheth :: row where
  "dagadusheth =
     \<lparr>t_id = 1, t_name = ''Dagadusheth Halwai Ganapati Temple'', t_type = ''Hindu'',
      t_address = Some ''Ganpati Bhavan, 250, Budhwar Peth, Pune'', t_city = Some ''Pune'',
      t_lat = Some (Num 18.5164), t_lng = Some (Num 73.8560),
      t_opening_hours = Some ''6:00 AM - 11:00 PM'',
      t_ritual_timings = Some ''Aarti at 7:30 AM, 1:30 PM, 8:00 PM'',
      t_festivals = Some ''Ganesh Chaturthi'',
      t_accessibility = Some ''Wheelchair accessible, Parking available'',
      t_contact = Some ''020 2447 9622'',
      t_description = Some ''One of the most famous Ganesha temples in India.'',
      t_image_url = Some ''https://picsum.photos/seed/dagadusheth/800/600''\<rparr>"

text \<open>A row the schema admits: only the two \<open>NOT NULL\<close> columns and the city are set.\<close>

definition unlocated :: row where
  "unlocated =
     \<lparr>t_id = 6, t_name = ''Unlocated Shrine'', t_type = ''Other'',
      t_address = None, t_city = Some ''Pune'', t_lat = None, t_lng = None,
      t_opening_hours = None, t_ritual_timings = None, t_festivals = None,
      t_accessibility = None, t_contact = None, t_description = None,
      t_image_url = None\<rparr>"

text \<open>\<open>GET /api/temples?lat=18.5164&lng=73.8560\<close>.\<close>

definition at_dagadusheth :: query where
  "at_dagadusheth = \<lparr>q_city = None, q_type = None, q_lat = Some ''18.5164'',
     q_lng = Some ''73.8560'', q_radius = None\<rparr>"

text \<open>\<open>GET /api/temples?lat=abc&lng=73.8560\<close>.\<close>

definition lat_abc :: query where
  "lat_abc = \<lparr>q_city = None, q_type = None, q_lat = Some ''abc'',
     q_lng = Some ''73.8560'', q_radius = None\<rparr>"

text \<open>A row a tenth of a degree north of the first, on its meridian.\<close>

definition north_shrine :: row where
  "north_shrine =
     \<lparr>t_id = 7, t_name = ''North Shrine'', t_type = ''Hindu'',
      t_address = None, t_city = Some ''Pune'',
      t_lat = Some (Num 18.6164), t_lng = Some (Num 73.8560),
      t_opening_hours = None, t_ritual_timings = None, t_festivals = None,
      t_accessibility = None, t_contact = None, t_description = None,
      t_image_url = None\<rparr>"

text \<open>\<open>GET /api/temples?lat=18.5164&lng=73.8560&radius=20\<close>.\<close>

definition at_dagadusheth_20 :: query where
  "at_dagadusheth_20 = \<lparr>q_city = None, q_type = None, q_lat = Some ''18.5164'',
     q_lng = Some ''73.8560'', q_radius = Some ''20''\<rparr>"

text \<open>\<open>GET /api/temples?lat=0&lng=0\<close>.\<close>

definition at_origin :: query where
  "at_origin = \<lparr>q_city = None, q_type = None, q_lat = Some ''0'',
     q_lng = Some ''0'', q_radius = None\<rparr>"

text \<open>\<open>GET /api/temples?lat=100&lng=73.8560&radius=20000\<close>: a latitude of 100
  degrees.\<close>

definition at_latitude_100 :: query where
  "at_latitude_100 = \<lparr>q_city = None, q_type = None, q_lat = Some ''100'',
     q_lng = Some ''73.8560'', q_radius = Some ''20000''\<rparr>"

text \<open>\<open>GET /api/temples?city=Pune\<close>.\<close>

definition in_pune :: query where
  "in_pune = \<lparr>q_city = Some ''Pune'', q_type = None, q_lat = None,
     q_lng = None, q_radius = None\<rparr>"

section \<open>Properties\<close>

subsection \<open>Unfolding the model on concrete inputs\<close>

lemmas parse_defs = parseFloat_def unsigned_literal_def is_white_def is_digit_def
  digit_of_def digits_value_def exponent_part_def scale10_def radius_string_def

lemmas run_defs = handler_def db_all_def where_clause_def rank_def res_json_def
  array_sort_def within_radius_def by_distance_def object_of_row_def row.defs temple.defs
  getDistance_def Math_PI_def atan2_def

subsection \<open>\<open>NaN\<close> is contagious\<close>

lemma js_le_NaN_right [simp]: "js_le x NaN = False"
  by (cases x) simp_all

lemma js_add_NaN_right [simp]: "js_add x NaN = NaN"
  by (cases x) simp_all

lemma js_sub_NaN_right [simp]: "js_sub x NaN = NaN"
  by (cases x) simp_all

lemma js_mul_NaN_right [simp]: "js_mul x NaN = NaN"
  by (cases x) simp_all

lemma js_div_NaN_right [simp]: "js_div x NaN = NaN"
  by (cases x) simp_all

lemma Math_atan2_NaN_right [simp]: "Math_atan2 x NaN = NaN"
  by (cases x) simp_all

lemma getDistance_NaN_lat1: "getDistance NaN lon1 lat2 lon2 = NaN"
  by (simp add: getDistance_def)

lemma getDistance_NaN_lon1: "getDistance lat1 NaN lat2 lon2 = NaN"
  by (simp add: getDistance_def)

subsection \<open>The parts of the handler\<close>

lemma handler_body:
  "body (fst (handler db q)) = rank q (fst (db_all db (where_clause q)))"
  by (simp add: handler_def res_json_def split: prod.splits)

lemma handler_status: "status (fst (handler db q)) = 200"
  by (simp add: handler_def res_json_def split: prod.splits)

lemma array_filter_map_filter:
  "array_filter f ts = map (\<lambda>t. fst (f t)) (filter (\<lambda>t. snd (f t)) ts)"
  by (induction ts) (simp_all split: prod.splits)

lemma set_array_filter:
  "set (array_filter f ts) = {fst (f t) | t. t \<in> set ts \<and> snd (f t)}"
  by (auto simp: array_filter_map_filter)

lemma array_filter_none: "(\<And>t. \<not> snd (f t)) \<Longrightarrow> array_filter f ts = []"
  by (simp add: array_filter_map_filter)

lemma set_insert_sorted: "set (insert_sorted cmp x ys) = insert x (set ys)"
  by (induction ys) auto

lemma set_array_sort: "set (array_sort cmp xs) = set xs"
  by (induction xs) (simp_all add: array_sort_def set_insert_sorted)

lemma length_insert_sorted: "length (insert_sorted cmp x ys) = Suc (length ys)"
  by (induction ys) auto

lemma length_array_sort: "length (array_sort cmp xs) = length xs"
  by (induction xs) (simp_all add: array_sort_def length_insert_sorted)

lemma rank_ranked:
  "truthy (q_lat q) \<Longrightarrow> truthy (q_lng q) \<Longrightarrow>
   rank q ts = array_sort by_distance
     (array_filter (within_radius (parseFloat (to_string (q_lat q)))
        (parseFloat (to_string (q_lng q))) (parseFloat (radius_string q))) ts)"
  by (simp add: rank_def)

lemma rank_unranked: "\<not> (truthy (q_lat q) \<and> truthy (q_lng q)) \<Longrightarrow> rank q ts = ts"
  by (auto simp: rank_def)

lemma set_rank_ranked:
  assumes "truthy (q_lat q)" "truthy (q_lng q)"
  shows "set (rank q ts) =
    {fst (within_radius (parseFloat (to_string (q_lat q)))
        (parseFloat (to_string (q_lng q))) (parseFloat (radius_string q)) t) | t.
       t \<in> set ts \<and> snd (within_radius (parseFloat (to_string (q_lat q)))
        (parseFloat (to_string (q_lng q))) (parseFloat (radius_string q)) t)}"
  by (simp add: rank_ranked assms set_array_sort set_array_filter)

lemma at_dagadusheth_response:
  "fst (handler \<lparr>temples = [dagadusheth]\<rparr> at_dagadusheth) =
     \<lparr>status = 200, body = [(object_of_row dagadusheth)\<lparr>t_distance := Some (Num 0)\<rparr>]\<rparr>"
  by (simp add: run_defs parse_defs at_dagadusheth_def dagadusheth_def)

subsection \<open>The radius bounds every result\<close>

text \<open>
  C1. When \<open>lat\<close> and \<open>lng\<close> are supplied, every entry of the response carries a
  \<open>distance\<close>, and that distance is \<open><=\<close> the radius in force: the parsed \<open>radius\<close>
  parameter, or 10 when the parameter is absent.
\<close>

theorem results_within_radius:
  assumes "truthy (q_lat q)" and "truthy (q_lng q)"
    and "t \<in> set (body (fst (handler db q)))"
  shows "\<exists>d. t_distance t = Some d \<and> js_le d (parseFloat (radius_string q))"
  using assms(3) unfolding handler_body set_rank_ranked[OF assms(1,2)]
  by (auto simp: within_radius_def Let_def)

theorem results_within_radius_witness:
  "truthy (q_lat at_dagadusheth) \<and> truthy (q_lng at_dagadusheth)
   \<and> (object_of_row dagadusheth)\<lparr>t_distance := Some (Num 0)\<rparr>
       \<in> set (body (fst (handler \<lparr>temples = [dagadusheth]\<rparr> at_dagadusheth)))
   \<and> (\<exists>d. t_distance ((object_of_row dagadusheth)\<lparr>t_distance := Some (Num 0)\<rparr>) = Some d
        \<and> js_le d (parseFloat (radius_string at_dagadusheth)))"
proof -
  have lat: "truthy (q_lat at_dagadusheth)" and lng: "truthy (q_lng at_dagadusheth)"
    by (simp_all add: at_dagadusheth_def)
  have mem: "(object_of_row dagadusheth)\<lparr>t_distance := Some (Num 0)\<rparr>
       \<in> set (body (fst (handler \<lparr>temples = [dagadusheth]\<rparr> at_dagadusheth)))"
    by (simp add: at_dagadusheth_response)
  from results_within_radius[OF lat lng mem] lat lng mem show ?thesis
    by blast
qed

subsection \<open>A \<open>NaN\<close> among the parsed parameters empties the result\<close>

text \<open>
  C10. When \<open>lat\<close> and \<open>lng\<close> are both present and non-empty and one of \<open>lat\<close>,
  \<open>lng\<close> and the radius parses to \<open>NaN\<close>, the response is the empty sequence, sent
  with status 200: no error is reported and the default radius is not used instead.
\<close>

theorem nan_gives_empty:
  assumes "truthy (q_lat q)" and "truthy (q_lng q)"
    and "parseFloat (to_string (q_lat q)) = NaN \<or> parseFloat (to_string (q_lng q)) = NaN
         \<or> parseFloat (radius_string q) = NaN"
  shows "fst (handler db q) = \<lparr>status = 200, body = []\<rparr>"
proof -
  have "\<not> snd (within_radius (parseFloat (to_string (q_lat q)))
        (parseFloat (to_string (q_lng q))) (parseFloat (radius_string q)) t)" for t
    using assms(3)
    by (auto simp: within_radius_def Let_def getDistance_NaN_lat1 getDistance_NaN_lon1)
  then have "body (fst (handler db q)) = []"
    by (simp add: handler_body rank_ranked assms(1,2) array_filter_none array_sort_def)
  then show ?thesis
    using handler_status[of db q] by (cases "fst (handler db q)") simp
qed

theorem nan_gives_empty_witness:
  "truthy (q_lat lat_abc) \<and> truthy (q_lng lat_abc)
   \<and> parseFloat (to_string (q_lat lat_abc)) = NaN
   \<and> fst (handler \<lparr>temples = [dagadusheth]\<rparr> lat_abc) = \<lparr>status = 200, body = []\<rparr>"
proof -
  have lat: "truthy (q_lat lat_abc)" and lng: "truthy (q_lng lat_abc)"
    by (simp_all add: lat_abc_def)
  have nan: "parseFloat (to_string (q_lat lat_abc)) = NaN"
    by (simp add: lat_abc_def parse_defs)
  from nan_gives_empty[OF lat lng disjI1[OF nan]] lat lng nan show ?thesis
    by blast
qed

subsection \<open>The arithmetic of \<open>jsnum\<close>\<close>

lemma js_neg_neg [simp]: "js_neg (js_neg x) = x"
  by (cases x) simp_all

lemma js_sub_swap: "js_sub a b = js_neg (js_sub b a)"
  by (cases a; cases b) simp_all

lemma js_mul_neg_left: "js_mul (js_neg a) b = js_neg (js_mul a b)"
  by (cases a; cases b) (auto simp: inf_times_def)

lemma js_mul_commute: "js_mul a b = js_mul b a"
  by (cases a; cases b) (simp_all add: mult.commute)

lemma js_mul_neg_right: "js_mul a (js_neg b) = js_neg (js_mul a b)"
  by (metis js_mul_commute js_mul_neg_left)

lemma js_div_neg_left: "js_div (js_neg a) b = js_neg (js_div a b)"
  by (cases a; cases b) auto

lemma Math_sin_neg: "Math_sin (js_neg x) = js_neg (Math_sin x)"
  by (cases x) simp_all

lemma positive_js_sub: "a \<noteq> NaN \<Longrightarrow> b \<noteq> NaN \<Longrightarrow> positive (js_sub a b) = (\<not> js_le a b)"
  by (cases a; cases b) auto

lemma js_le_total: "a \<noteq> NaN \<Longrightarrow> b \<noteq> NaN \<Longrightarrow> js_le a b \<or> js_le b a"
  by (cases a; cases b) auto

lemma js_le_trans: "js_le a b \<Longrightarrow> js_le b c \<Longrightarrow> js_le a c"
  by (cases a; cases b; cases c) auto

lemma js_le_not_NaN: "js_le a b \<Longrightarrow> a \<noteq> NaN \<and> b \<noteq> NaN"
  by (cases a; cases b) auto

lemma js_eq_refl: "x \<noteq> NaN \<Longrightarrow> js_eq x x"
  by (cases x) simp_all

lemma number_of_column_case:
  "number_of_column c = (case c of None \<Rightarrow> Num 0 | Some v \<Rightarrow> v)"
  by (cases c) simp_all

subsection \<open>Swapping the two points\<close>

lemma getDistance_swap:
  "getDistance lat1 lon1 lat2 lon2 = getDistance lat2 lon2 lat1 lon1"
proof -
  have sq: "js_mul (js_neg s) (js_neg s) = js_mul s s" for s
    by (simp add: js_mul_neg_left js_mul_neg_right)
  have sq2: "js_mul (js_mul x (js_neg s)) (js_neg s) = js_mul (js_mul x s) s" for x s
    by (simp add: js_mul_neg_left js_mul_neg_right)
  have half: "Math_sin (js_div (js_div (js_mul (js_sub u v) Math_PI) (Num 180)) (Num 2))
      = js_neg (Math_sin (js_div (js_div (js_mul (js_sub v u) Math_PI) (Num 180)) (Num 2)))"
    for u v
    by (subst js_sub_swap) (simp only: js_mul_neg_left js_div_neg_left Math_sin_neg)
  show ?thesis
    unfolding getDistance_def Let_def
    by (simp only: half[of lat1 lat2] half[of lon1 lon2] sq sq2
        js_mul_commute[of "Math_cos (js_div (js_mul lat2 Math_PI) (Num 180))"])
qed

subsection \<open>\<open>getDistance\<close> on finite arguments\<close>

text \<open>
  In exact arithmetic the term \<open>a\<close> never leaves \<open>[0, 1]\<close> between valid latitudes,
  so the lemmas of this subsection never meet the \<open>NaN\<close> of \<open>Math.sqrt\<close>. The
  doubles of the program round: for some pairs of antipodal points, such as
  \<open>(-12, -180)\<close> and \<open>(12, 0)\<close>, they compute an \<open>a\<close> just above 1, and
  \<open>getDistance\<close> then returns \<open>NaN\<close>. The lemmas of this subsection and the next
  speak of the exact arithmetic; they serve to evaluate the search at concrete points
  where rounding does not decide the outcome.
\<close>

lemma getDistance_Num:
  "getDistance (Num lat1) (Num lon1) (Num lat2) (Num lon2) =
     (if haversine_a lat1 lon1 lat2 lon2 < 0 \<or> 1 < haversine_a lat1 lon1 lat2 lon2 then NaN
      else Num (haversine lat1 lon1 lat2 lon2))"
  by (simp add: getDistance_def Math_PI_def Let_def haversine_def haversine_a_def radians_def
      power2_eq_square mult.assoc)

lemma getDistance_self: "getDistance (Num lat) (Num lon) (Num lat) (Num lon) = Num 0"
  by (simp add: getDistance_def Math_PI_def atan2_def)

lemma radians_bounds:
  assumes "- b \<le> x" and "x \<le> b"
  shows "- (b * pi / 180) \<le> radians x" and "radians x \<le> b * pi / 180"
proof -
  have "(- b) * pi \<le> x * pi" and "x * pi \<le> b * pi"
    using assms by (simp_all only: mult_right_mono pi_ge_zero)
  then show "- (b * pi / 180) \<le> radians x" and "radians x \<le> b * pi / 180"
    by (simp_all add: radians_def)
qed

lemma radians_minus: "radians (- x) = - radians x"
  by (simp add: radians_def)

lemma radians_0 [simp]: "radians 0 = 0"
  by (simp add: radians_def)

lemma radians_eq_iff [simp]: "radians x = radians y \<longleftrightarrow> x = y"
  by (simp add: radians_def)

lemma cos_radians_nonneg: "- 90 \<le> lat \<Longrightarrow> lat \<le> 90 \<Longrightarrow> 0 \<le> cos (radians lat)"
  using radians_bounds[of 90 lat] by (intro cos_ge_zero) simp_all

lemma sin_half_squared: "(sin (x / 2))\<^sup>2 = (1 - cos x) / (2::real)"
  using cos_double_sin[of "x / 2"] by simp

text \<open>Between valid latitudes \<open>a\<close> stays in \<open>[0, 1]\<close>, so both square roots are
  taken of non-negative numbers.\<close>

lemma haversine_a_bounds:
  assumes "- 90 \<le> lat1" "lat1 \<le> 90" "- 90 \<le> lat2" "lat2 \<le> 90"
  shows "0 \<le> haversine_a lat1 lon1 lat2 lon2" and "haversine_a lat1 lon1 lat2 lon2 \<le> 1"
proof -
  define p where "p = cos (radians lat1) * cos (radians lat2)"
  define s where "s = (sin (radians (lon2 - lon1) / 2))\<^sup>2"
  have p0: "0 \<le> p"
    unfolding p_def using assms by (intro mult_nonneg_nonneg cos_radians_nonneg)
  have s0: "0 \<le> s" and s1: "s \<le> 1"
    unfolding s_def by (simp_all add: abs_square_le_1 abs_sin_le_one)
  have a: "haversine_a lat1 lon1 lat2 lon2 = (sin (radians (lat2 - lat1) / 2))\<^sup>2 + p * s"
    by (simp add: haversine_a_def p_def s_def)
  show "0 \<le> haversine_a lat1 lon1 lat2 lon2"
    unfolding a using p0 s0 by simp
  have "radians (lat2 - lat1) = radians lat2 - radians lat1"
    by (simp add: radians_def field_simps)
  then have "(sin (radians (lat2 - lat1) / 2))\<^sup>2
      = (1 - (cos (radians lat2) * cos (radians lat1) + sin (radians lat2) * sin (radians lat1))) / 2"
    by (simp add: sin_half_squared cos_diff)
  moreover have "cos (radians lat1 + radians lat2) \<le> 1"
    by simp
  then have "cos (radians lat1) * cos (radians lat2) - sin (radians lat1) * sin (radians lat2) \<le> 1"
    by (simp add: cos_add)
  moreover have "p * s \<le> p"
    using p0 s1 by (simp add: mult_left_le)
  ultimately show "haversine_a lat1 lon1 lat2 lon2 \<le> 1"
    unfolding a p_def by (simp add: field_simps)
qed

lemma getDistance_valid:
  assumes "valid_coordinate lat1 lon1" and "valid_coordinate lat2 lon2"
  shows "getDistance (Num lat1) (Num lon1) (Num lat2) (Num lon2) = Num (haversine lat1 lon1 lat2 lon2)"
  using haversine_a_bounds[of lat1 lat2 lon1 lon2] assms
  by (simp add: getDistance_Num valid_coordinate_def)

subsection \<open>Along a meridian\<close>

lemma atan2_sin_cos:
  assumes "0 \<le> u" and "u \<le> pi / 2"
  shows "atan2 (sin u) (cos u) = u"
proof (cases "u = pi / 2")
  case True
  show ?thesis unfolding True by (simp add: atan2_def)
next
  case False
  with assms have "0 < cos u"
    by (intro cos_gt_zero_pi) simp_all
  moreover have "arctan (sin u / cos u) = u"
    using arctan_tan[of u] assms False by (simp add: tan_def)
  ultimately show ?thesis by (simp add: atan2_def)
qed

text \<open>Two points of equal longitude at most 180 degrees of latitude apart: the result
  is the length of the arc between them, whatever the latitudes are.\<close>

lemma getDistance_meridian:
  assumes "\<bar>lat2 - lat1\<bar> \<le> 180"
  shows "getDistance (Num lat1) (Num lon) (Num lat2) (Num lon) = Num (6371 * radians \<bar>lat2 - lat1\<bar>)"
proof -
  define u where "u = radians \<bar>lat2 - lat1\<bar> / 2"
  have u: "0 \<le> u" "u \<le> pi / 2"
    using radians_bounds[of 180 "\<bar>lat2 - lat1\<bar>"] assms
    by (simp_all add: u_def radians_def)
  have "radians (lat2 - lat1) / 2 = u \<or> radians (lat2 - lat1) / 2 = - u"
  proof (cases "0 \<le> lat2 - lat1")
    case True
    then have "\<bar>lat2 - lat1\<bar> = lat2 - lat1" by simp
    then show ?thesis by (simp add: u_def)
  next
    case False
    then have "\<bar>lat2 - lat1\<bar> = - (lat2 - lat1)" by simp
    then have "u = - (radians (lat2 - lat1) / 2)"
      unfolding u_def by (simp only: radians_minus minus_divide_left)
    then show ?thesis by simp
  qed
  then have "(sin (radians (lat2 - lat1) / 2))\<^sup>2 = (sin u)\<^sup>2"
    by auto
  then have a: "haversine_a lat1 lon lat2 lon = (sin u)\<^sup>2"
    by (simp add: haversine_a_def)
  have su: "0 \<le> sin u" and cu: "0 \<le> cos u"
    using u pi_gt_zero by (auto intro!: sin_ge_zero cos_ge_zero)
  have "sqrt (1 - (sin u)\<^sup>2) = cos u"
    using cu by (simp flip: cos_squared_eq)
  moreover have "sqrt ((sin u)\<^sup>2) = sin u"
    using su by simp
  ultimately have "haversine lat1 lon lat2 lon = 6371 * (2 * u)"
    using atan2_sin_cos[OF u] by (simp add: haversine_def a Let_def)
  moreover have "(sin u)\<^sup>2 \<le> 1"
    by (simp add: abs_square_le_1 abs_sin_le_one)
  ultimately show ?thesis
    by (simp add: getDistance_Num a u_def)
qed

subsection \<open>Sorting by distance\<close>

lemma sorted_insert_sorted:
  assumes "comparable x" and "list_all comparable ys" and "sorted_wrt distance_le ys"
  shows "sorted_wrt distance_le (insert_sorted by_distance x ys)"
  using assms
proof (induction ys)
  case Nil
  then show ?case by simp
next
  case (Cons y ys)
  show ?case
  proof (cases "positive (by_distance x y)")
    case True
    with Cons.prems have "distance_le y x"
      using js_le_total[of "number_of_property (t_distance x)" "number_of_property (t_distance y)"]
      by (simp add: by_distance_def positive_js_sub comparable_def distance_le_def)
    with True Cons show ?thesis
      by (auto simp: set_insert_sorted)
  next
    case False
    with Cons.prems have xy: "distance_le x y"
      by (simp add: by_distance_def positive_js_sub comparable_def distance_le_def)
    have "distance_le x z" if "z \<in> set ys" for z
      using xy Cons.prems(3) that js_le_trans unfolding distance_le_def by auto
    with False xy Cons.prems show ?thesis
      by auto
  qed
qed

lemma sorted_array_sort:
  "list_all comparable xs \<Longrightarrow> sorted_wrt distance_le (array_sort by_distance xs)"
proof (induction xs)
  case Nil
  then show ?case by (simp add: array_sort_def)
next
  case (Cons x xs)
  then have "list_all comparable (array_sort by_distance xs)"
    by (simp add: list_all_iff set_array_sort)
  with Cons show ?case
    by (simp add: array_sort_def sorted_insert_sorted)
qed

lemma comparable_array_filter:
  "list_all comparable (array_filter (within_radius la lo r) ts)"
  by (auto simp: list_all_iff set_array_filter within_radius_def Let_def comparable_def
      dest: js_le_not_NaN)

lemma sorted_rank:
  "truthy (q_lat q) \<Longrightarrow> truthy (q_lng q) \<Longrightarrow> sorted_wrt distance_le (rank q ts)"
  by (simp add: rank_ranked sorted_array_sort comparable_array_filter)

section \<open>The distance function\<close>

subsection \<open>Symmetry\<close>

text \<open>
  C7. \<open>getDistance\<close> is symmetric: with the two points exchanged it returns the same
  value, for all arguments; and whenever that value is a number, the two results are
  equal for JavaScript's \<open>===\<close> as well.
\<close>

theorem getDistance_symmetric:
  "getDistance lat1 lon1 lat2 lon2 = getDistance lat2 lon2 lat1 lon1
   \<and> (getDistance lat1 lon1 lat2 lon2 \<noteq> NaN \<longrightarrow>
        js_eq (getDistance lat1 lon1 lat2 lon2) (getDistance lat2 lon2 lat1 lon1))"
  using getDistance_swap[of lat1 lon1 lat2 lon2] by (simp add: js_eq_refl)

theorem getDistance_symmetric_witness:
  "getDistance (Num 18.5204) (Num 73.8567) (Num 18.5164) (Num 73.8560) \<noteq> NaN
   \<and> js_eq (getDistance (Num 18.5204) (Num 73.8567) (Num 18.5164) (Num 73.8560))
        (getDistance (Num 18.5164) (Num 73.8560) (Num 18.5204) (Num 73.8567))"
proof -
  have "valid_coordinate 18.5204 73.8567" and "valid_coordinate 18.5164 73.8560"
    by (simp_all add: valid_coordinate_def)
  then have n: "getDistance (Num 18.5204) (Num 73.8567) (Num 18.5164) (Num 73.8560) \<noteq> NaN"
    by (simp add: getDistance_valid)
  from getDistance_symmetric[of "Num 18.5204" "Num 73.8567" "Num 18.5164" "Num 73.8560"] n
  show ?thesis by blast
qed

subsection \<open>Distance zero\<close>

text \<open>
  C6, as the code has it. The distance of a valid coordinate to itself is zero. The
  converse does not hold: two valid coordinates that differ as pairs of numbers can be
  at distance zero.
\<close>

theorem zero_distance_to_self:
  assumes "valid_coordinate lat lon"
  shows "getDistance (Num lat) (Num lon) (Num lat) (Num lon) = Num 0
    \<and> js_eq (getDistance (Num lat) (Num lon) (Num lat) (Num lon)) (Num 0)"
proof -
  have "js_sub (Num lat) (Num lat) = Num 0" and "js_sub (Num lon) (Num lon) = Num 0"
    by simp_all
  then have "getDistance (Num lat) (Num lon) (Num lat) (Num lon) = Num 0"
    by (simp add: getDistance_def Math_PI_def atan2_def)
  then show ?thesis by simp
qed

theorem zero_distance_to_self_witness:
  "valid_coordinate 18.5164 73.8560
   \<and> getDistance (Num 18.5164) (Num 73.8560) (Num 18.5164) (Num 73.8560) = Num 0
   \<and> js_eq (getDistance (Num 18.5164) (Num 73.8560) (Num 18.5164) (Num 73.8560)) (Num 0)"
proof -
  have v: "valid_coordinate 18.5164 73.8560"
    by (simp add: valid_coordinate_def)
  from zero_distance_to_self[OF v] v show ?thesis
    by blast
qed

text \<open>Two valid coordinates at the north pole, \<open>1e-200\<close> degrees of longitude
  apart: different pairs of numbers, distance zero.\<close>

theorem zero_distance_counterexample:
  "valid_coordinate 90 0 \<and> valid_coordinate 90 (1 / 10 ^ 200) \<and>
   (90 :: real, 0 :: real) \<noteq> (90, 1 / 10 ^ 200) \<and>
   getDistance (Num 90) (Num 0) (Num 90) (Num (1 / 10 ^ 200)) = Num 0"
  by (simp add: valid_coordinate_def getDistance_def Math_PI_def atan2_def)

section \<open>The search\<close>

subsection \<open>Results come in order of distance\<close>

lemma north_shrine_distance:
  "getDistance (Num (18.5164)) (Num (73.8560)) (Num (18.6164)) (Num (73.8560))
     = Num (6371 * radians (1 / 10))"
  using getDistance_meridian[of "18.6164" "18.5164" "73.8560"] by simp

lemma north_shrine_near: "6371 * radians (1 / 10) \<le> 20" "0 < 6371 * radians (1 / 10)"
  using pi_less_4 pi_gt_zero by (simp_all add: radians_def)

lemmas run_on_meridian = handler_def db_all_def where_clause_def rank_def res_json_def
  array_sort_def within_radius_def by_distance_def object_of_row_def row.defs temple.defs
  Let_def

text \<open>The table lists the farther row first; the response lists it last.\<close>

lemma two_results:
  "body (fst (handler \<lparr>temples = [north_shrine, dagadusheth]\<rparr> at_dagadusheth_20)) =
     [(object_of_row dagadusheth)\<lparr>t_distance := Some (Num 0)\<rparr>,
      (object_of_row north_shrine)\<lparr>t_distance := Some (Num (6371 * radians (1 / 10)))\<rparr>]"
  using north_shrine_near north_shrine_distance
  by (simp add: run_on_meridian parse_defs at_dagadusheth_20_def dagadusheth_def
      north_shrine_def getDistance_self)

text \<open>
  C2. When \<open>lat\<close> and \<open>lng\<close> are supplied, the response is ordered by distance:
  \<open>r[i].distance <= r[i+1].distance\<close> holds for every adjacent pair.
\<close>

theorem results_sorted:
  assumes "truthy (q_lat q)" and "truthy (q_lng q)"
    and "Suc i < length (body (fst (handler db q)))"
  shows "distance_le (body (fst (handler db q)) ! i) (body (fst (handler db q)) ! Suc i)"
  using sorted_rank[OF assms(1,2)] assms(3) unfolding handler_body
  by (simp add: sorted_wrt_nth_less)

theorem results_sorted_witness:
  "truthy (q_lat at_dagadusheth_20) \<and> truthy (q_lng at_dagadusheth_20)
   \<and> Suc 0 < length (body (fst (handler \<lparr>temples = [north_shrine, dagadusheth]\<rparr> at_dagadusheth_20)))
   \<and> distance_le
        (body (fst (handler \<lparr>temples = [north_shrine, dagadusheth]\<rparr> at_dagadusheth_20)) ! 0)
        (body (fst (handler \<lparr>temples = [north_shrine, dagadusheth]\<rparr> at_dagadusheth_20)) ! Suc 0)"
proof -
  have lat: "truthy (q_lat at_dagadusheth_20)" and lng: "truthy (q_lng at_dagadusheth_20)"
    by (simp_all add: at_dagadusheth_20_def)
  have len: "Suc 0 < length (body (fst (handler \<lparr>temples = [north_shrine, dagadusheth]\<rparr> at_dagadusheth_20)))"
    by (simp add: two_results)
  from results_sorted[OF lat lng len] lat lng len show ?thesis
    by blast
qed

subsection \<open>The default radius\<close>

lemma parseFloat_10: "parseFloat ''10'' = Num 10"
  by (simp add: parse_defs)

text \<open>
  C8. A request without \<open>radius\<close> is answered exactly as the same request with a
  \<open>radius\<close> that reads 10; and when \<open>lat\<close> or \<open>lng\<close> is missing or empty, the
  answer does not depend on \<open>radius\<close> at all.
\<close>

theorem default_radius:
  "(parseFloat s = Num 10 \<longrightarrow>
      handler db (q\<lparr>q_radius := None\<rparr>) = handler db (q\<lparr>q_radius := Some s\<rparr>))
   \<and> (\<not> (truthy (q_lat q) \<and> truthy (q_lng q)) \<longrightarrow>
        handler db (q\<lparr>q_radius := r1\<rparr>) = handler db (q\<lparr>q_radius := r2\<rparr>))"
proof -
  have w: "where_clause (q\<lparr>q_radius := r\<rparr>) = where_clause q" for r
    by (simp add: where_clause_def)
  have d: "parseFloat s = Num 10 \<Longrightarrow>
      rank (q\<lparr>q_radius := None\<rparr>) ts = rank (q\<lparr>q_radius := Some s\<rparr>) ts" for ts
    by (simp add: rank_def radius_string_def parseFloat_10)
  have u: "\<not> (truthy (q_lat q) \<and> truthy (q_lng q)) \<Longrightarrow>
      rank (q\<lparr>q_radius := r1\<rparr>) ts = rank (q\<lparr>q_radius := r2\<rparr>) ts" for ts
    by (auto simp: rank_def)
  show ?thesis
    using d u by (simp add: handler_def w)
qed

theorem default_radius_witness:
  "parseFloat ''10.0'' = Num 10
   \<and> truthy (q_lat at_dagadusheth) \<and> truthy (q_lng at_dagadusheth)
   \<and> handler \<lparr>temples = [north_shrine, dagadusheth]\<rparr> (at_dagadusheth\<lparr>q_radius := None\<rparr>)
       = handler \<lparr>temples = [north_shrine, dagadusheth]\<rparr> (at_dagadusheth\<lparr>q_radius := Some ''10.0''\<rparr>)
   \<and> \<not> (truthy (q_lat in_pune) \<and> truthy (q_lng in_pune))
   \<and> handler \<lparr>temples = [north_shrine, dagadusheth]\<rparr> (in_pune\<lparr>q_radius := None\<rparr>)
       = handler \<lparr>temples = [north_shrine, dagadusheth]\<rparr> (in_pune\<lparr>q_radius := Some ''0.1''\<rparr>)"
proof -
  have p: "parseFloat ''10.0'' = Num 10"
    by (simp add: parse_defs)
  have t: "truthy (q_lat at_dagadusheth) \<and> truthy (q_lng at_dagadusheth)"
    by (simp add: at_dagadusheth_def)
  have n: "\<not> (truthy (q_lat in_pune) \<and> truthy (q_lng in_pune))"
    by (simp add: in_pune_def)
  from default_radius[of "''10.0''" "\<lparr>temples = [north_shrine, dagadusheth]\<rparr>" at_dagadusheth]
    default_radius[of _ "\<lparr>temples = [north_shrine, dagadusheth]\<rparr>" in_pune None "Some ''0.1''"]
    p t n
  show ?thesis by blast
qed

subsection \<open>Rows without a location\<close>

text \<open>
  C4, as the code has it. In a ranked search no row is set aside for a \<open>NULL\<close>
  latitude or longitude: the missing number is read as 0, and the row, like every
  other selected row, is returned with the distance so computed exactly when that
  distance is \<open><=\<close> the radius. The response has status 200 in every case.
\<close>

theorem null_location_read_as_zero:
  assumes "truthy (q_lat q)" and "truthy (q_lng q)"
    and "t \<in> set (fst (db_all db (where_clause q)))"
  shows "status (fst (handler db q)) = 200
    \<and> (t\<lparr>t_distance := Some (getDistance (parseFloat (to_string (q_lat q)))
            (parseFloat (to_string (q_lng q)))
            (case t_lat t of None \<Rightarrow> Num 0 | Some v \<Rightarrow> v)
            (case t_lng t of None \<Rightarrow> Num 0 | Some v \<Rightarrow> v))\<rparr>
          \<in> set (body (fst (handler db q)))
        \<longleftrightarrow>
        js_le (getDistance (parseFloat (to_string (q_lat q)))
            (parseFloat (to_string (q_lng q)))
            (case t_lat t of None \<Rightarrow> Num 0 | Some v \<Rightarrow> v)
            (case t_lng t of None \<Rightarrow> Num 0 | Some v \<Rightarrow> v))
          (parseFloat (radius_string q)))"
proof -
  define d where "d t = getDistance (parseFloat (to_string (q_lat q)))
            (parseFloat (to_string (q_lng q)))
            (case t_lat t of None \<Rightarrow> Num 0 | Some v \<Rightarrow> v)
            (case t_lng t of None \<Rightarrow> Num 0 | Some v \<Rightarrow> v)" for t :: temple
  have wr: "within_radius (parseFloat (to_string (q_lat q)))
        (parseFloat (to_string (q_lng q))) (parseFloat (radius_string q)) t'
      = (t'\<lparr>t_distance := Some (d t')\<rparr>, js_le (d t') (parseFloat (radius_string q)))" for t'
    by (simp add: within_radius_def d_def number_of_column_case Let_def)
  have "t\<lparr>t_distance := Some (d t)\<rparr> \<in> set (body (fst (handler db q)))
      \<longleftrightarrow> js_le (d t) (parseFloat (radius_string q))"
  proof
    assume "t\<lparr>t_distance := Some (d t)\<rparr> \<in> set (body (fst (handler db q)))"
    then obtain t' where t': "t\<lparr>t_distance := Some (d t)\<rparr> = t'\<lparr>t_distance := Some (d t')\<rparr>"
      and le: "js_le (d t') (parseFloat (radius_string q))"
      unfolding handler_body set_rank_ranked[OF assms(1,2)] wr by auto
    from t' have "t_distance (t\<lparr>t_distance := Some (d t)\<rparr>)
        = t_distance (t'\<lparr>t_distance := Some (d t')\<rparr>)"
      by (rule arg_cong)
    then have "d t = d t'" by simp
    with le show "js_le (d t) (parseFloat (radius_string q))" by simp
  next
    assume "js_le (d t) (parseFloat (radius_string q))"
    with assms(3) show "t\<lparr>t_distance := Some (d t)\<rparr> \<in> set (body (fst (handler db q)))"
      unfolding handler_body set_rank_ranked[OF assms(1,2)] wr by auto
  qed
  then show ?thesis
    unfolding d_def by (simp add: handler_status)
qed

theorem null_location_read_as_zero_witness:
  "truthy (q_lat at_origin) \<and> truthy (q_lng at_origin)
   \<and> object_of_row unlocated
        \<in> set (fst (db_all \<lparr>temples = [unlocated, dagadusheth]\<rparr> (where_clause at_origin)))
   \<and> t_lat (object_of_row unlocated) = None \<and> t_lng (object_of_row unlocated) = None
   \<and> status (fst (handler \<lparr>temples = [unlocated, dagadusheth]\<rparr> at_origin)) = 200
   \<and> (object_of_row unlocated)\<lparr>t_distance := Some (Num 0)\<rparr>
        \<in> set (body (fst (handler \<lparr>temples = [unlocated, dagadusheth]\<rparr> at_origin)))"
proof -
  have lat: "truthy (q_lat at_origin)" and lng: "truthy (q_lng at_origin)"
    by (simp_all add: at_origin_def)
  have sel: "object_of_row unlocated
      \<in> set (fst (db_all \<lparr>temples = [unlocated, dagadusheth]\<rparr> (where_clause at_origin)))"
    by (simp add: db_all_def where_clause_def at_origin_def)
  have null: "t_lat (object_of_row unlocated) = None" "t_lng (object_of_row unlocated) = None"
    by (simp_all add: object_of_row_def unlocated_def row.defs temple.defs)
  have zero: "parseFloat (to_string (q_lat at_origin)) = Num 0"
    "parseFloat (to_string (q_lng at_origin)) = Num 0"
    "parseFloat (radius_string at_origin) = Num 10"
    by (simp_all add: at_origin_def parse_defs)
  from null_location_read_as_zero[OF lat lng sel] lat lng sel null show ?thesis
    by (simp add: zero getDistance_self)
qed

text \<open>A table whose only row has no location, searched from latitude 0 and longitude 0
  with the default radius: the row is returned, at distance 0.\<close>

theorem null_location_counterexample:
  "t_lat unlocated = None \<and> t_lng unlocated = None \<and>
   truthy (q_lat at_origin) \<and> truthy (q_lng at_origin) \<and>
   fst (handler \<lparr>temples = [unlocated]\<rparr> at_origin) =
     \<lparr>status = 200, body = [(object_of_row unlocated)\<lparr>t_distance := Some (Num 0)\<rparr>]\<rparr>"
  by (simp add: run_on_meridian parse_defs at_origin_def unlocated_def getDistance_self)

subsection \<open>A reference point out of range\<close>

lemma latitude_100_distance:
  "getDistance (Num 100) (Num (73.8560)) (Num (18.5164)) (Num (73.8560))
     = Num (6371 * radians (81.4836))"
  using getDistance_meridian[of "18.5164" "100" "73.8560"] by simp

lemma latitude_100_near: "6371 * radians (81.4836) \<le> 20000"
  using pi_less_4 by (simp add: radians_def)

text \<open>
  C5, as the code has it. A reference point whose latitude or longitude is a number
  outside the valid ranges is not rejected. Like every request that carries \<open>lat\<close>
  and \<open>lng\<close>, it is answered with status 200; every entry of the body carries the
  distance \<open>getDistance\<close> gives for the reference point exactly as it was parsed,
  neither checked nor clamped, and the entry's own coordinates; and every selected row
  for which that distance is \<open><=\<close> the radius is in the body.
\<close>

theorem out_of_range_not_rejected:
  assumes "truthy (q_lat q)" and "truthy (q_lng q)"
  shows "status (fst (handler db q)) = 200
    \<and> (\<forall>t \<in> set (body (fst (handler db q))).
          t_distance t = Some (getDistance (parseFloat (to_string (q_lat q)))
            (parseFloat (to_string (q_lng q)))
            (number_of_column (t_lat t)) (number_of_column (t_lng t))))
    \<and> (\<forall>t \<in> set (fst (db_all db (where_clause q))).
          js_le (getDistance (parseFloat (to_string (q_lat q)))
              (parseFloat (to_string (q_lng q)))
              (number_of_column (t_lat t)) (number_of_column (t_lng t)))
            (parseFloat (radius_string q))
          \<longrightarrow> t\<lparr>t_distance := Some (getDistance (parseFloat (to_string (q_lat q)))
                  (parseFloat (to_string (q_lng q)))
                  (number_of_column (t_lat t)) (number_of_column (t_lng t)))\<rparr>
                \<in> set (body (fst (handler db q))))"
proof (intro conjI ballI impI)
  show "status (fst (handler db q)) = 200"
    by (rule handler_status)
next
  fix t
  assume "t \<in> set (body (fst (handler db q)))"
  then obtain t0 where "t = fst (within_radius (parseFloat (to_string (q_lat q)))
        (parseFloat (to_string (q_lng q))) (parseFloat (radius_string q)) t0)"
    unfolding handler_body set_rank_ranked[OF assms] by auto
  then show "t_distance t = Some (getDistance (parseFloat (to_string (q_lat q)))
            (parseFloat (to_string (q_lng q)))
            (number_of_column (t_lat t)) (number_of_column (t_lng t)))"
    by (simp add: within_radius_def Let_def)
next
  fix t
  assume "t \<in> set (fst (db_all db (where_clause q)))"
    and "js_le (getDistance (parseFloat (to_string (q_lat q)))
              (parseFloat (to_string (q_lng q)))
              (number_of_column (t_lat t)) (number_of_column (t_lng t)))
            (parseFloat (radius_string q))"
  then show "t\<lparr>t_distance := Some (getDistance (parseFloat (to_string (q_lat q)))
                  (parseFloat (to_string (q_lng q)))
                  (number_of_column (t_lat t)) (number_of_column (t_lng t)))\<rparr>
                \<in> set (body (fst (handler db q)))"
    unfolding handler_body set_rank_ranked[OF assms]
    by (auto simp: within_radius_def Let_def)
qed

theorem out_of_range_not_rejected_witness:
  "truthy (q_lat at_latitude_100) \<and> truthy (q_lng at_latitude_100)
   \<and> parseFloat (to_string (q_lat at_latitude_100)) = Num 100
   \<and> parseFloat (to_string (q_lng at_latitude_100)) = Num (73.8560)
   \<and> \<not> valid_coordinate 100 (73.8560)
   \<and> status (fst (handler \<lparr>temples = [dagadusheth]\<rparr> at_latitude_100)) = 200
   \<and> (object_of_row dagadusheth)\<lparr>t_distance := Some (Num (6371 * radians (81.4836)))\<rparr>
        \<in> set (body (fst (handler \<lparr>temples = [dagadusheth]\<rparr> at_latitude_100)))"
proof -
  have lat: "truthy (q_lat at_latitude_100)" and lng: "truthy (q_lng at_latitude_100)"
    by (simp_all add: at_latitude_100_def)
  have plat: "parseFloat (to_string (q_lat at_latitude_100)) = Num 100"
    and plng: "parseFloat (to_string (q_lng at_latitude_100)) = Num (73.8560)"
    and prad: "parseFloat (radius_string at_latitude_100) = Num 20000"
    by (simp_all add: at_latitude_100_def parse_defs)
  have inv: "\<not> valid_coordinate 100 (73.8560)"
    by (simp add: valid_coordinate_def)
  have sel: "object_of_row dagadusheth
      \<in> set (fst (db_all \<lparr>temples = [dagadusheth]\<rparr> (where_clause at_latitude_100)))"
    by (simp add: db_all_def where_clause_def at_latitude_100_def)
  have col: "number_of_column (t_lat (object_of_row dagadusheth)) = Num (18.5164)"
    "number_of_column (t_lng (object_of_row dagadusheth)) = Num (73.8560)"
    by (simp_all add: object_of_row_def dagadusheth_def row.defs temple.defs)
  have d: "getDistance (parseFloat (to_string (q_lat at_latitude_100)))
        (parseFloat (to_string (q_lng at_latitude_100)))
        (number_of_column (t_lat (object_of_row dagadusheth)))
        (number_of_column (t_lng (object_of_row dagadusheth)))
      = Num (6371 * radians (81.4836))"
    unfolding plat plng col by (rule latitude_100_distance)
  have le: "js_le (Num (6371 * radians (81.4836))) (parseFloat (radius_string at_latitude_100))"
    unfolding prad using latitude_100_near by simp
  from out_of_range_not_rejected[OF lat lng, of "\<lparr>temples = [dagadusheth]\<rparr>"]
  have "status (fst (handler \<lparr>temples = [dagadusheth]\<rparr> at_latitude_100)) = 200"
    and "(object_of_row dagadusheth)\<lparr>t_distance := Some (Num (6371 * radians (81.4836)))\<rparr>
        \<in> set (body (fst (handler \<lparr>temples = [dagadusheth]\<rparr> at_latitude_100)))"
    using sel le unfolding d[symmetric] by blast+
  with lat lng plat plng inv show ?thesis
    by blast
qed

text \<open>A search from latitude 100 within 20000 km: the seeded row on the same meridian
  is returned, 81.4836 degrees of arc away.\<close>

theorem out_of_range_counterexample:
  "\<not> valid_coordinate 100 (73.8560) \<and>
   parseFloat (to_string (q_lat at_latitude_100)) = Num 100 \<and>
   parseFloat (to_string (q_lng at_latitude_100)) = Num (73.8560) \<and>
   fst (handler \<lparr>temples = [dagadusheth]\<rparr> at_latitude_100) =
     \<lparr>status = 200,
      body = [(object_of_row dagadusheth)\<lparr>t_distance := Some (Num (6371 * radians (81.4836)))\<rparr>]\<rparr>"
  using latitude_100_near latitude_100_distance
  by (simp add: run_on_meridian parse_defs at_latitude_100_def dagadusheth_def
      valid_coordinate_def)

end
